theory Spec2Isabelle
  imports Main "HOL-Library.Char_ord" "HOL-Library.List_Lexorder"
begin

section \<open>Common vocabulary\<close>

text \<open>
  Go strings are byte strings, and so are the byte slices the code handles: both are
  \<^typ>\<open>string\<close>. A Go \<^verbatim>\<open>error\<close> value is a message; \<open>ErrNotExist\<close> is the kind of
  error \<^verbatim>\<open>os.IsNotExist\<close> recognises, and \<open>Panic\<close> is a run-time panic (a nil pointer
  dereference, an index out of range), which ends the call like an error nobody handles.
  A function returning \<^verbatim>\<open>(T, error)\<close> returns \<open>error + T\<close>, one returning only
  \<^verbatim>\<open>error\<close> returns \<open>error option\<close> (\<open>None\<close> is \<^verbatim>\<open>nil\<close>).
\<close>

type_synonym bytes = string

datatype error = Error string | ErrNotExist string | Panic string

fun IsNotExist :: "error \<Rightarrow> bool" where
  "IsNotExist (ErrNotExist _) = True"
| "IsNotExist _ = False"

section \<open>The command-line client: cmd/convox/builds.go\<close>

subsection \<open>Data\<close>

text \<open>
  The structs of the client package, with the fields this file reads or writes.
  \<open>Id'\<close> is the field \<^verbatim>\<open>Id\<close> of \<^verbatim>\<open>client.Build\<close>.
\<close>

record Build =
  Id' :: string
  Status :: string
  Release :: string

record System =
  Version :: string

record FileInfo =
  IsDir :: bool
  Info_Mode :: nat
  Info_ModTime :: int

record IndexItem =
  Name :: string
  Mode :: nat
  ModTime :: int
  Size :: nat

type_synonym Index = "string \<rightharpoonup> IndexItem"

record Header =
  Typeflag :: char
  Header_Name :: string
  Header_Mode :: nat
  Header_Size :: nat

datatype Compression = Uncompressed | Bzip2 | Gzip | Xz

record TarOptions =
  Compression :: Compression
  ExcludePatterns :: "string list"
  IncludeFiles :: "string list"


subsection \<open>Effects\<close>

text \<open>
  Everything the code does to the outside is an event, appended to a trace in the order
  the code does it: the operating-system calls, the tar writer's calls and the calls to
  the rack through \<^verbatim>\<open>rackClient(c)\<close>. What a call answers is given by the environment as
  a function of the trace so far (the history) and of the call's arguments, so that the
  same call may answer differently each time, as a poll of a running build does.
  Writes to standard output are left out: nothing reads them back and no branch
  depends on them.
\<close>

type_synonym handle = nat

datatype event =
    Ev_Stat string
  | Ev_Open string
  | Ev_ReadAll_dockerignore handle
  | Ev_Getwd
  | Ev_EvalSymlinks string
  | Ev_Chdir string
  | Ev_Abs string
  | Ev_Walk string
  | Ev_ReadFile string
  | Ev_TarWithOptions string TarOptions
  | Ev_ReadAll handle
  | Ev_WriteHeader Header
  | Ev_Write bytes
  | Ev_Close_tar
  | Ev_Close_gzip
  | Ev_Sleep nat
  | Call_GetSystem
  | Call_IndexMissing Index
  | Call_IndexUpdate bytes
  | Call_CreateBuildIndex string Index bool string string
  | Call_CreateBuildSourceProgress string bytes bool string string
  | Call_CreateBuildUrl string string bool string string
  | Call_StreamBuildLogs string string
  | Call_GetBuild string string

type_synonym trace = "event list"

text \<open>The rack: the methods of \<^verbatim>\<open>client.Client\<close> this file calls.\<close>

record rack =
  GetSystem :: "trace \<Rightarrow> error + System"
  IndexMissing :: "trace \<Rightarrow> Index \<Rightarrow> error + string list"
  IndexUpdate :: "trace \<Rightarrow> bytes \<Rightarrow> error option"
  CreateBuildIndex :: "trace \<Rightarrow> string \<Rightarrow> Index \<Rightarrow> bool \<Rightarrow> string \<Rightarrow> string \<Rightarrow> error + Build"
  CreateBuildSourceProgress :: "trace \<Rightarrow> string \<Rightarrow> bytes \<Rightarrow> bool \<Rightarrow> string \<Rightarrow> string \<Rightarrow> error + Build"
  CreateBuildUrl :: "trace \<Rightarrow> string \<Rightarrow> string \<Rightarrow> bool \<Rightarrow> string \<Rightarrow> string \<Rightarrow> error + Build"
  StreamBuildLogs :: "trace \<Rightarrow> string \<Rightarrow> string \<Rightarrow> error option"
  GetBuild :: "trace \<Rightarrow> string \<Rightarrow> string \<Rightarrow> error + Build"

text \<open>
  The machine the client runs on: the calls into \<^verbatim>\<open>os\<close>, \<^verbatim>\<open>filepath\<close>, \<^verbatim>\<open>ioutil\<close>,
  the docker packages and the tar and gzip writers. The calls that read or change the
  machine answer from the history; the functions of their arguments alone
  (\<^verbatim>\<open>fileutils.Matches\<close>, \<^verbatim>\<open>filepath.Rel\<close>, the two \<^verbatim>\<open>Join\<close>s, \<^verbatim>\<open>sha256.Sum256\<close>,
  \<^verbatim>\<open>hex.EncodeToString\<close>, \<^verbatim>\<open>url.Parse\<close>) do not and leave no event.
  \<open>Walk\<close> gives the entries \<^verbatim>\<open>filepath.Walk\<close> visits, in its order, each a path and
  the \<^verbatim>\<open>os.FileInfo\<close> passed to the walk function (\<open>None\<close> when it is \<^verbatim>\<open>nil\<close>).
  \<open>Bytes\<close> is the content of the buffer the gzip writer fills.
\<close>

record URL =
  Scheme :: string

record os =
  Stat :: "trace \<Rightarrow> string \<Rightarrow> error + FileInfo"
  Open :: "trace \<Rightarrow> string \<Rightarrow> error + handle"
  dockerignore_ReadAll :: "trace \<Rightarrow> handle \<Rightarrow> error + string list"
  Getwd :: "trace \<Rightarrow> error + string"
  EvalSymlinks :: "trace \<Rightarrow> string \<Rightarrow> error + string"
  Chdir :: "trace \<Rightarrow> string \<Rightarrow> error option"
  Abs :: "trace \<Rightarrow> string \<Rightarrow> error + string"
  Walk :: "trace \<Rightarrow> string \<Rightarrow> (string \<times> FileInfo option) list"
  ReadFile :: "trace \<Rightarrow> string \<Rightarrow> error + bytes"
  TarWithOptions :: "trace \<Rightarrow> string \<Rightarrow> TarOptions \<Rightarrow> error + handle"
  ReadAll :: "trace \<Rightarrow> handle \<Rightarrow> error + bytes"
  WriteHeader :: "trace \<Rightarrow> Header \<Rightarrow> error option"
  Write :: "trace \<Rightarrow> bytes \<Rightarrow> error option"
  Close_tar :: "trace \<Rightarrow> error option"
  Close_gzip :: "trace \<Rightarrow> error option"
  Bytes :: "trace \<Rightarrow> bytes"
  Matches :: "string \<Rightarrow> string list \<Rightarrow> error + bool"
  Rel :: "string \<Rightarrow> string \<Rightarrow> error + string"
  filepath_Join :: "string \<Rightarrow> string \<Rightarrow> string"
  path_Join :: "string \<Rightarrow> string \<Rightarrow> string"
  Sum256 :: "bytes \<Rightarrow> bytes"
  EncodeToString :: "bytes \<Rightarrow> string"
  url_Parse :: "string \<Rightarrow> error + URL"

subsection \<open>waitForBuild and finishBuild\<close>

text \<open>
  \<^verbatim>\<open>waitForBuild\<close> is a \<^verbatim>\<open>for\<close> loop with no bound. The first argument is fuel, the
  number of polls the loop may make; the result \<open>None\<close> says that the loop is still
  polling when the fuel is used up, \<open>Some r\<close> that it returned \<open>r\<close>.
\<close>

fun waitForBuild :: "nat \<Rightarrow> rack \<Rightarrow> string \<Rightarrow> string \<Rightarrow> trace \<Rightarrow> (error + string) option \<times> trace" where
  "waitForBuild 0 r app id' tr = (None, tr)"
| "waitForBuild (Suc fuel) r app id' tr =
     (case GetBuild r tr app id' of
        Inl err \<Rightarrow> (Some (Inl err), tr @ [Call_GetBuild app id'])
      | Inr build \<Rightarrow>
          if Status build = ''complete'' then
            (Some (Inr (Release build)), tr @ [Call_GetBuild app id'])
          else if Status build = ''error'' then
            (Some (Inl (Error (app @ '' build failed''))), tr @ [Call_GetBuild app id'])
          else if Status build = ''failed'' then
            (Some (Inl (Error (app @ '' build failed''))), tr @ [Call_GetBuild app id'])
          else if Status build = ''timeout'' then
            (Some (Inl (Error (app @ '' build timed out''))), tr @ [Call_GetBuild app id'])
          else waitForBuild fuel r app id' (tr @ [Call_GetBuild app id', Ev_Sleep 1]))"

text \<open>
  \<^verbatim>\<open>finishBuild\<close>: the pipe and the goroutine copying it to standard output only move
  log bytes; \<^verbatim>\<open>StreamBuildLogs\<close> is called in line, and its error is returned.
\<close>

definition finishBuild :: "nat \<Rightarrow> rack \<Rightarrow> string \<Rightarrow> Build \<Rightarrow> trace \<Rightarrow> (error + string) option \<times> trace" where
  "finishBuild fuel r app build tr =
     (if Id' build = '''' then (Some (Inl (Error ''unable to fetch build id'')), tr)
      else case StreamBuildLogs r tr app (Id' build) of
        Some err \<Rightarrow> (Some (Inl err), tr @ [Call_StreamBuildLogs app (Id' build)])
      | None \<Rightarrow>
          (case waitForBuild fuel r app (Id' build) (tr @ [Call_StreamBuildLogs app (Id' build)]) of
             (Some (Inl err), tr') \<Rightarrow> (Some (Inl err), tr')
           | (Some (Inr release), tr') \<Rightarrow> (Some (Inr release), tr')
           | (None, tr') \<Rightarrow> (None, tr')))"

subsection \<open>The ignore file and the index\<close>



text \<open>
  The walk function \<^verbatim>\<open>indexWalker(root, index, ignore)\<close>, applied to one entry. The Go
  function writes into the map it was given; here it returns the new map. It does not
  look at the error the walk passes in, so a \<^verbatim>\<open>nil\<close> \<^verbatim>\<open>info\<close> is dereferenced.
\<close>

definition indexWalker :: "os \<Rightarrow> string \<Rightarrow> string list \<Rightarrow> string \<times> FileInfo option
    \<Rightarrow> Index \<times> trace \<Rightarrow> error option \<times> Index \<times> trace" where
  "indexWalker os root ignore entry st =
     (case (entry, st) of ((path, info), (index, tr)) \<Rightarrow>
      case Rel os root path of
        Inl err \<Rightarrow> (Some err, index, tr)
      | Inr rel \<Rightarrow>
          (case info of
             None \<Rightarrow> (Some (Panic ''nil pointer dereference''), index, tr)
           | Some info \<Rightarrow>
               if IsDir info then (None, index, tr)
               else case Matches os rel ignore of
                 Inl err \<Rightarrow> (Some err, index, tr)
               | Inr match \<Rightarrow>
                   if match then (None, index, tr)
                   else case ReadFile os tr path of
                     Inl err \<Rightarrow> (Some err, index, tr @ [Ev_ReadFile path])
                   | Inr data \<Rightarrow>
                       (let hash = EncodeToString os (Sum256 os data) in
                        (None,
                         index(hash \<mapsto> \<lparr>Name = rel, Mode = Info_Mode info,
                                         ModTime = Info_ModTime info, Size = length data\<rparr>),
                         tr @ [Ev_ReadFile path]))))"

text \<open>\<^verbatim>\<open>filepath.Walk\<close>: the walk function on each entry in turn, until one returns an error.\<close>

fun walk :: "(string \<times> FileInfo option \<Rightarrow> Index \<times> trace \<Rightarrow> error option \<times> Index \<times> trace)
    \<Rightarrow> (string \<times> FileInfo option) list \<Rightarrow> Index \<times> trace \<Rightarrow> error option \<times> Index \<times> trace" where
  "walk walkFn [] (index, tr) = (None, index, tr)"
| "walk walkFn (entry # entries) (index, tr) =
     (case walkFn entry (index, tr) of
        (Some err, index', tr') \<Rightarrow> (Some err, index', tr')
      | (None, index', tr') \<Rightarrow> walk walkFn entries (index', tr'))"


subsection \<open>uploadIndex\<close>

text \<open>
  The body of \<^verbatim>\<open>for _, m := range missing\<close>. \<^verbatim>\<open>index[m]\<close> of a hash that is not in the
  index is the zero \<^verbatim>\<open>IndexItem\<close>, whose \<^verbatim>\<open>Name\<close> is empty.
  \<^verbatim>\<open>tar.TypeReg\<close> is the character 0 and the mode 0600 is 384.
\<close>

fun uploadIndex_loop :: "os \<Rightarrow> Index \<Rightarrow> string list \<Rightarrow> trace \<Rightarrow> error option \<times> trace" where
  "uploadIndex_loop os index [] tr = (None, tr)"
| "uploadIndex_loop os index (m # missing) tr =
     (let name = (case index m of None \<Rightarrow> [] | Some item \<Rightarrow> Name item) in
      case ReadFile os tr name of
        Inl err \<Rightarrow> (Some err, tr @ [Ev_ReadFile name])
      | Inr data \<Rightarrow>
          (let header = \<lparr>Typeflag = CHR ''0'', Header_Name = m, Header_Mode = 384,
                         Header_Size = length data\<rparr> in
           case WriteHeader os (tr @ [Ev_ReadFile name]) header of
             Some err \<Rightarrow> (Some err, tr @ [Ev_ReadFile name, Ev_WriteHeader header])
           | None \<Rightarrow>
               (case Write os (tr @ [Ev_ReadFile name, Ev_WriteHeader header]) data of
                  Some err \<Rightarrow> (Some err, tr @ [Ev_ReadFile name, Ev_WriteHeader header, Ev_Write data])
                | None \<Rightarrow>
                    uploadIndex_loop os index missing
                      (tr @ [Ev_ReadFile name, Ev_WriteHeader header, Ev_Write data]))))"

definition uploadIndex :: "os \<Rightarrow> rack \<Rightarrow> Index \<Rightarrow> trace \<Rightarrow> error option \<times> trace" where
  "uploadIndex os r index tr =
     (case IndexMissing r tr index of
        Inl err \<Rightarrow> (Some err, tr @ [Call_IndexMissing index])
      | Inr missing \<Rightarrow>
          if length missing = 0 then (None, tr @ [Call_IndexMissing index])
          else case uploadIndex_loop os index missing (tr @ [Call_IndexMissing index]) of
            (Some err, tr1) \<Rightarrow> (Some err, tr1)
          | (None, tr1) \<Rightarrow>
              (case Close_tar os tr1 of
                 Some err \<Rightarrow> (Some err, tr1 @ [Ev_Close_tar])
               | None \<Rightarrow>
                   (case Close_gzip os (tr1 @ [Ev_Close_tar]) of
                      Some err \<Rightarrow> (Some err, tr1 @ [Ev_Close_tar, Ev_Close_gzip])
                    | None \<Rightarrow>
                        (let tr2 = tr1 @ [Ev_Close_tar, Ev_Close_gzip];
                             data = Bytes os tr2 in
                         case IndexUpdate r tr2 data of
                           Some err \<Rightarrow> (Some err, tr2 @ [Call_IndexUpdate data])
                         | None \<Rightarrow> (None, tr2 @ [Call_IndexUpdate data])))))"

subsection \<open>createTarball\<close>

text \<open>
  The errors of the two \<^verbatim>\<open>fileutils.Matches\<close> calls are dropped (\<^verbatim>\<open>keepThem1, _ :=\<close>),
  and with an error \<^verbatim>\<open>Matches\<close> returns \<^verbatim>\<open>false\<close>.
\<close>

definition keepThem :: "os \<Rightarrow> string \<Rightarrow> string list \<Rightarrow> bool" where
  "keepThem os file excludes = (case Matches os file excludes of Inl err \<Rightarrow> False | Inr match \<Rightarrow> match)"

text \<open>
  \<open>tarOptions\<close> is the part of \<^verbatim>\<open>createTarball\<close> that builds \<^verbatim>\<open>includes\<close> and the
  \<^verbatim>\<open>TarOptions\<close> from the patterns to exclude, and \<open>archive\<close> is what follows it, down to
  the return: the source reaches both with the patterns of the ignore file, or with none
  when there is no ignore file.
\<close>

definition tarOptions :: "os \<Rightarrow> string list \<Rightarrow> TarOptions" where
  "tarOptions os excludes =
     (let includes = [''.''];
          keepThem1 = keepThem os ''.dockerignore'' excludes;
          keepThem2 = keepThem os ''Dockerfile'' excludes;
          includes = (if keepThem1 \<or> keepThem2 then includes @ [''.dockerignore'', ''Dockerfile'']
                      else includes)
      in \<lparr>Compression = Gzip, ExcludePatterns = excludes, IncludeFiles = includes\<rparr>)"

definition archive :: "os \<Rightarrow> string \<Rightarrow> string \<Rightarrow> string list \<Rightarrow> trace \<Rightarrow> (error + bytes) \<times> trace" where
  "archive os cwd sym' excludes tr =
     (let options = tarOptions os excludes in
      case TarWithOptions os tr sym' options of
        Inl err \<Rightarrow> (Inl err, tr @ [Ev_TarWithOptions sym' options])
      | Inr out \<Rightarrow>
          (case ReadAll os (tr @ [Ev_TarWithOptions sym' options]) out of
             Inl err \<Rightarrow> (Inl err, tr @ [Ev_TarWithOptions sym' options, Ev_ReadAll out])
           | Inr bytes \<Rightarrow>
               (case Chdir os (tr @ [Ev_TarWithOptions sym' options, Ev_ReadAll out]) cwd of
                  Some err \<Rightarrow> (Inl err, tr @ [Ev_TarWithOptions sym' options, Ev_ReadAll out, Ev_Chdir cwd])
                | None \<Rightarrow> (Inr bytes, tr @ [Ev_TarWithOptions sym' options, Ev_ReadAll out, Ev_Chdir cwd]))))"

definition createTarball :: "os \<Rightarrow> string \<Rightarrow> trace \<Rightarrow> (error + bytes) \<times> trace" where
  "createTarball os base tr =
     (case Getwd os tr of
        Inl err \<Rightarrow> (Inl err, tr @ [Ev_Getwd])
      | Inr cwd \<Rightarrow>
          (case EvalSymlinks os (tr @ [Ev_Getwd]) base of
             Inl err \<Rightarrow> (Inl err, tr @ [Ev_Getwd, Ev_EvalSymlinks base])
           | Inr sym' \<Rightarrow>
               (case Chdir os (tr @ [Ev_Getwd, Ev_EvalSymlinks base]) sym' of
                  Some err \<Rightarrow> (Inl err, tr @ [Ev_Getwd, Ev_EvalSymlinks base, Ev_Chdir sym'])
                | None \<Rightarrow>
                    (let tr1 = tr @ [Ev_Getwd, Ev_EvalSymlinks base, Ev_Chdir sym'];
                         dockerIgnorePath = path_Join os sym' ''.dockerignore'' in
                     case Open os tr1 dockerIgnorePath of
                       Inl err \<Rightarrow>
                         if \<not> IsNotExist err then (Inl err, tr1 @ [Ev_Open dockerIgnorePath])
                         else archive os cwd sym' [] (tr1 @ [Ev_Open dockerIgnorePath])
                     | Inr dockerIgnore \<Rightarrow>
                         (case dockerignore_ReadAll os (tr1 @ [Ev_Open dockerIgnorePath]) dockerIgnore of
                            Inl err \<Rightarrow>
                              (Inl err, tr1 @ [Ev_Open dockerIgnorePath, Ev_ReadAll_dockerignore dockerIgnore])
                          | Inr excludes \<Rightarrow>
                              archive os cwd sym' excludes
                                (tr1 @ [Ev_Open dockerIgnorePath, Ev_ReadAll_dockerignore dockerIgnore]))))))"

subsection \<open>The three ways to submit a build\<close>





section \<open>The release store and promotion: package provider\<close>

subsection \<open>Data\<close>

text \<open>
  A \<^verbatim>\<open>dynamodb.Attribute\<close> as this code uses it: \<^verbatim>\<open>NewStringAttribute(name, value)\<close> makes
  one and \<^verbatim>\<open>attr.Value\<close> reads one. An item read from a table is a Go map from attribute
  names to attributes; it is a list of pairs here, in the order in which a \<^verbatim>\<open>range\<close> over
  the map meets its keys, and \<open>map_of\<close> is the lookup \<^verbatim>\<open>drel["ami"]\<close> (\<open>None\<close> is the
  \<^verbatim>\<open>nil\<close> a missing key gives). The \<^verbatim>\<open>options\<close> of \<^verbatim>\<open>ReleaseCreate\<close> are such a map too.
\<close>

record Attribute =
  Attribute_Name :: string
  Value :: string

definition NewStringAttribute :: "string \<Rightarrow> string \<Rightarrow> Attribute" where
  "NewStringAttribute name value = \<lparr>Attribute_Name = name, Value = value\<rparr>"

type_synonym item = "(string \<times> Attribute) list"

record Parameter =
  ParameterKey :: string
  ParameterValue :: string

record Stack =
  Parameters :: "Parameter list"

record UpdateStackParams =
  StackName :: string
  TemplateBody :: string
  UpdateParameters :: "Parameter list"

record App =
  Repository :: string

subsection \<open>Effects\<close>

text \<open>
  The calls to DynamoDB and CloudFormation, to the clock and to the random source are
  events of a trace, answered from the history as in the client. \<^verbatim>\<open>AppShow\<close> returns a
  pointer and an error: the pointer may be \<^verbatim>\<open>nil\<close> (\<open>None\<close>). \<open>'p\<close> is the type
  \<^verbatim>\<open>AppParams\<close>, which this file only passes from \<^verbatim>\<open>appParams\<close> to \<^verbatim>\<open>buildTemplate\<close>.
  \<open>Now_Format h layout\<close> is \<^verbatim>\<open>time.Now().Format(layout)\<close>, \<open>SortableTime\<close> the
  constant of that name, and \<open>rand_char h i\<close> the \<open>i\<close>-th character the random source
  draws.
\<close>

datatype pevent =
    Call_GetItem string string string
  | Call_PutItem string string string "Attribute list"
  | Call_appParams string string
  | Call_AppShow string string
  | Call_DescribeStacks string string
  | Call_UpdateStack UpdateStackParams
  | Ev_generateId string nat
  | Ev_Now

type_synonym ptrace = "pevent list"

record 'p aws =
  GetItem :: "ptrace \<Rightarrow> string \<Rightarrow> string \<times> string \<Rightarrow> error + item"
  PutItem :: "ptrace \<Rightarrow> string \<Rightarrow> string \<Rightarrow> string \<Rightarrow> Attribute list \<Rightarrow> error option"
  appParams :: "ptrace \<Rightarrow> string \<Rightarrow> string \<Rightarrow> error + 'p"
  AppShow :: "ptrace \<Rightarrow> string \<Rightarrow> string \<Rightarrow> App option \<times> error option"
  DescribeStacks :: "ptrace \<Rightarrow> string \<Rightarrow> string \<Rightarrow> error + Stack list"
  UpdateStack :: "ptrace \<Rightarrow> UpdateStackParams \<Rightarrow> error option"
  buildTemplate :: "string \<Rightarrow> 'p \<Rightarrow> error + string"
  Now_Format :: "ptrace \<Rightarrow> string \<Rightarrow> string"
  SortableTime :: string
  rand_char :: "ptrace \<Rightarrow> nat \<Rightarrow> char"

subsection \<open>Helpers that are not in the file\<close>

text \<open>
  Modelled from the spec: \<^verbatim>\<open>generateId\<close> is called by \<^verbatim>\<open>ReleaseCopy\<close> and defined
  elsewhere in the package. The spec has it generate a fixed-length random token with
  a release-kind prefix: the prefix followed by \<open>size'\<close> characters of the random source.
\<close>

definition generateId :: "'p aws \<Rightarrow> ptrace \<Rightarrow> string \<Rightarrow> nat \<Rightarrow> string" where
  "generateId aws tr prefix size' = prefix @ map (rand_char aws tr) [0..<size']"

text \<open>
  Modelled from the spec: \<^verbatim>\<open>coalesce\<close> is defined elsewhere in the package. The spec has
  the promotion extract the artifact identifier of the record and fail when it is
  absent: \<^verbatim>\<open>coalesce(attr, def)\<close> is the value of the attribute, and \<^verbatim>\<open>def\<close> when the
  attribute is \<^verbatim>\<open>nil\<close>.
\<close>

fun coalesce :: "Attribute option \<Rightarrow> string \<Rightarrow> string" where
  "coalesce (Some attr) def = Value attr"
| "coalesce None def = def"

definition releasesTable :: "string \<Rightarrow> string \<Rightarrow> string" where
  "releasesTable cluster app = cluster @ ''-'' @ app @ ''-releases''"

subsection \<open>ReleaseCreate and ReleaseCopy\<close>

definition ReleaseCreate :: "'p aws \<Rightarrow> string \<Rightarrow> string \<Rightarrow> string \<Rightarrow> (string \<times> string) list
    \<Rightarrow> ptrace \<Rightarrow> error option \<times> ptrace" where
  "ReleaseCreate aws cluster app ami options tr =
     (let attributes = [NewStringAttribute ''ami'' ami, NewStringAttribute ''created-at'' ''now'']
                       @ map (\<lambda>(k, v). NewStringAttribute k v) options
      in (PutItem aws tr (releasesTable cluster app) ami [] attributes,
          tr @ [Call_PutItem (releasesTable cluster app) ami [] attributes]))"

text \<open>The loop \<^verbatim>\<open>for key, attr := range drel\<close> of \<^verbatim>\<open>ReleaseCopy\<close>, appending to \<^verbatim>\<open>rel\<close>.\<close>

fun ReleaseCopy_loop :: "'p aws \<Rightarrow> string \<Rightarrow> item \<Rightarrow> Attribute list \<Rightarrow> ptrace
    \<Rightarrow> Attribute list \<times> ptrace" where
  "ReleaseCopy_loop aws id' [] rel tr = (rel, tr)"
| "ReleaseCopy_loop aws id' ((key, attr) # drel) rel tr =
     (if key = ''id'' then
        ReleaseCopy_loop aws id' drel (rel @ [NewStringAttribute key id']) tr
      else if key = ''created'' then
        ReleaseCopy_loop aws id' drel
          (rel @ [NewStringAttribute key (Now_Format aws tr (SortableTime aws))]) (tr @ [Ev_Now])
      else
        ReleaseCopy_loop aws id' drel (rel @ [NewStringAttribute key (Value attr)]) tr)"

text \<open>\<^verbatim>\<open>ReleaseCopy\<close> returns the pair \<^verbatim>\<open>(id, err)\<close>: after the put, the identifier with whatever the put returned.\<close>

definition ReleaseCopy :: "'p aws \<Rightarrow> string \<Rightarrow> string \<Rightarrow> string \<Rightarrow> ptrace
    \<Rightarrow> (string \<times> error option) \<times> ptrace" where
  "ReleaseCopy aws cluster app release tr =
     (let table = releasesTable cluster app in
      case GetItem aws tr table (release, []) of
        Inl err \<Rightarrow> (([], Some err), tr @ [Call_GetItem table release []])
      | Inr drel \<Rightarrow>
          (let id' = generateId aws (tr @ [Call_GetItem table release []]) ''R'' 9 in
           case ReleaseCopy_loop aws id' drel []
                  (tr @ [Call_GetItem table release [], Ev_generateId ''R'' 9]) of
             (rel, tr1) \<Rightarrow>
               ((id', PutItem aws tr1 table id' [] rel), tr1 @ [Call_PutItem table id' [] rel])))"

subsection \<open>releaseFormation and ReleasePromote\<close>

text \<open>
  \<^verbatim>\<open>releaseFormation\<close>: \<^verbatim>\<open>drelease["manifest"].Value\<close> dereferences the attribute, which is
  \<^verbatim>\<open>nil\<close> when the record has no manifest. What \<^verbatim>\<open>NewManifest\<close> returns is only printed.
\<close>

definition releaseFormation :: "'p aws \<Rightarrow> string \<Rightarrow> string \<Rightarrow> string \<Rightarrow> ptrace
    \<Rightarrow> (error + string) \<times> ptrace" where
  "releaseFormation aws cluster app release tr =
     (let table = releasesTable cluster app in
      case GetItem aws tr table (release, []) of
        Inl err \<Rightarrow> (Inl err, tr @ [Call_GetItem table release []])
      | Inr drelease \<Rightarrow>
          (let ami = coalesce (map_of drelease ''ami'') [] in
           if ami = [] then (Inl (Error ''invalid ami''), tr @ [Call_GetItem table release []])
           else case appParams aws (tr @ [Call_GetItem table release []]) cluster app of
             Inl err \<Rightarrow> (Inl err, tr @ [Call_GetItem table release [], Call_appParams cluster app])
           | Inr params \<Rightarrow>
               (case map_of drelease ''manifest'' of
                  None \<Rightarrow>
                    (Inl (Panic ''nil pointer dereference''),
                     tr @ [Call_GetItem table release [], Call_appParams cluster app])
                | Some manifest \<Rightarrow>
                    (case buildTemplate aws ''app'' params of
                       Inl err \<Rightarrow> (Inl err, tr @ [Call_GetItem table release [], Call_appParams cluster app])
                     | Inr template \<Rightarrow>
                         (Inr template, tr @ [Call_GetItem table release [], Call_appParams cluster app])))))"

text \<open>
  \<^verbatim>\<open>ReleasePromote\<close> prints the error of \<^verbatim>\<open>releaseFormation\<close> and goes on with the
  formation it got, which is empty with an error; only a panic ends it there. It
  writes \<^verbatim>\<open>a.Repository\<close> before it looks at the error of \<^verbatim>\<open>AppShow\<close>, and takes
  \<^verbatim>\<open>s.Stacks[0]\<close> without looking at the length.
\<close>

definition ReleasePromote :: "'p aws \<Rightarrow> string \<Rightarrow> string \<Rightarrow> string \<Rightarrow> ptrace \<Rightarrow> error option \<times> ptrace" where
  "ReleasePromote aws cluster app release tr =
     (case releaseFormation aws cluster app release tr of
        (Inl (Panic p), tr1) \<Rightarrow> (Some (Panic p), tr1)
      | (result, tr1) \<Rightarrow>
          (let formation = (case result of Inl err \<Rightarrow> [] | Inr template \<Rightarrow> template) in
           case AppShow aws tr1 cluster app of
             (None, err) \<Rightarrow> (Some (Panic ''nil pointer dereference''), tr1 @ [Call_AppShow cluster app])
           | (Some a, Some err) \<Rightarrow> (Some err, tr1 @ [Call_AppShow cluster app])
           | (Some a, None) \<Rightarrow>
               (let stack = cluster @ ''-'' @ app in
                case DescribeStacks aws (tr1 @ [Call_AppShow cluster app]) stack [] of
                  Inl err \<Rightarrow> (Some err, tr1 @ [Call_AppShow cluster app, Call_DescribeStacks stack []])
                | Inr [] \<Rightarrow>
                    (Some (Panic ''index out of range''),
                     tr1 @ [Call_AppShow cluster app, Call_DescribeStacks stack []])
                | Inr (s # stacks) \<Rightarrow>
                    (let params = \<lparr>StackName = cluster @ ''-'' @ app,
                                   TemplateBody = formation,
                                   UpdateParameters = Parameters s @
                                     [\<lparr>ParameterKey = ''Release'', ParameterValue = release\<rparr>]\<rparr>
                     in (UpdateStack aws (tr1 @ [Call_AppShow cluster app, Call_DescribeStacks stack []]) params,
                         tr1 @ [Call_AppShow cluster app, Call_DescribeStacks stack [],
                                Call_UpdateStack params])))))"

section \<open>Vocabulary of the properties\<close>

text \<open>
  The history at which \<^const>\<open>waitForBuild\<close>, started at \<open>tr\<close>, makes its poll number
  \<open>k\<close> (counted from 0) when no earlier poll ended the loop, and the answer
  \<^verbatim>\<open>GetBuild\<close> gives to that poll. A status is terminal when it is one of the four the
  \<^verbatim>\<open>switch\<close> names.
\<close>

definition poll_history :: "string \<Rightarrow> string \<Rightarrow> trace \<Rightarrow> nat \<Rightarrow> trace" where
  "poll_history app id' tr k = tr @ concat (replicate k [Call_GetBuild app id', Ev_Sleep 1])"

definition poll :: "rack \<Rightarrow> string \<Rightarrow> string \<Rightarrow> trace \<Rightarrow> nat \<Rightarrow> error + Build" where
  "poll r app id' tr k = GetBuild r (poll_history app id' tr k) app id'"

definition terminal :: "string \<Rightarrow> bool" where
  "terminal s \<longleftrightarrow> s = ''complete'' \<or> s = ''error'' \<or> s = ''failed'' \<or> s = ''timeout''"


fun is_GetBuild :: "event \<Rightarrow> bool" where
  "is_GetBuild (Call_GetBuild app id') = True"
| "is_GetBuild _ = False"

text \<open>
  An entry of a walk is indexed when it is a regular file that the ignore rules do not
  match. With a file system that answers every read of a path with \<open>rf\<close> of that path,
  the key of an entry is the content hash \<^const>\<open>indexWalker\<close> stores it under.
\<close>

definition indexed :: "os \<Rightarrow> string \<Rightarrow> string list \<Rightarrow> string \<times> FileInfo option \<Rightarrow> bool" where
  "indexed os root ignore entry =
     (case entry of
        (path, None) \<Rightarrow> False
      | (path, Some info) \<Rightarrow>
          \<not> IsDir info \<and>
          (case Rel os root path of
             Inl err \<Rightarrow> False
           | Inr rel \<Rightarrow> (case Matches os rel ignore of Inl err \<Rightarrow> False | Inr match \<Rightarrow> \<not> match)))"

definition content_hash :: "os \<Rightarrow> (string \<Rightarrow> error + bytes) \<Rightarrow> string \<times> FileInfo option \<Rightarrow> string" where
  "content_hash os rf entry =
     (case rf (fst entry) of Inl err \<Rightarrow> [] | Inr data \<Rightarrow> EncodeToString os (Sum256 os data))"

section \<open>Example environments\<close>

text \<open>
  A rack whose build answers \<open>building\<close> to the first \<open>n\<close> polls and then the given
  status with the release \<open>R1\<close>, that reports the given version and has every hash.
\<close>

definition example_rack :: "nat \<Rightarrow> string \<Rightarrow> string \<Rightarrow> rack" where
  "example_rack n status version =
     \<lparr>GetSystem = (\<lambda>tr. Inr \<lparr>Version = version\<rparr>),
      IndexMissing = (\<lambda>tr index. Inr []),
      IndexUpdate = (\<lambda>tr data. None),
      CreateBuildIndex = (\<lambda>tr app index cache manifest description.
         Inr \<lparr>Id' = ''B1'', Status = ''created'', Release = []\<rparr>),
      CreateBuildSourceProgress = (\<lambda>tr app tar cache manifest description.
         Inr \<lparr>Id' = ''B1'', Status = ''created'', Release = []\<rparr>),
      CreateBuildUrl = (\<lambda>tr app url cache manifest description.
         Inr \<lparr>Id' = ''B1'', Status = ''created'', Release = []\<rparr>),
      StreamBuildLogs = (\<lambda>tr app id'. None),
      GetBuild = (\<lambda>tr app id'.
         if length (filter is_GetBuild tr) < n
         then Inr \<lparr>Id' = id', Status = ''building'', Release = []\<rparr>
         else Inr \<lparr>Id' = id', Status = status, Release = ''R1''\<rparr>)\<rparr>"

text \<open>The same rack with a log stream that fails.\<close>

definition broken_logs_rack :: rack where
  "broken_logs_rack =
     (example_rack 0 ''complete'' ''20170101000000'')
       \<lparr>StreamBuildLogs := (\<lambda>tr app id'. Some (Error ''log stream closed''))\<rparr>"

text \<open>
  A machine with the directory \<open>/src\<close>, the given regular files in it (path and
  content) and, when \<open>ignore\<close> is not \<open>None\<close>, an ignore file with these patterns. A
  pattern matches the name equal to it; the hash of a content is the content.
\<close>

definition example_os :: "string list option \<Rightarrow> (string \<times> bytes) list \<Rightarrow> os" where
  "example_os ignore files =
     \<lparr>Stat = (\<lambda>tr name. Inl (ErrNotExist name)),
      Open = (\<lambda>tr name. case ignore of None \<Rightarrow> Inl (ErrNotExist name) | Some patterns \<Rightarrow> Inr 3),
      dockerignore_ReadAll = (\<lambda>tr fd. case ignore of None \<Rightarrow> Inr [] | Some patterns \<Rightarrow> Inr patterns),
      Getwd = (\<lambda>tr. Inr ''/home''),
      EvalSymlinks = (\<lambda>tr name. Inr name),
      Chdir = (\<lambda>tr name. None),
      Abs = (\<lambda>tr name. Inr name),
      Walk = (\<lambda>tr root.
         (root, Some \<lparr>IsDir = True, Info_Mode = 493, Info_ModTime = 0\<rparr>)
         # map (\<lambda>(name, data). (name, Some \<lparr>IsDir = False, Info_Mode = 420, Info_ModTime = 0\<rparr>)) files),
      ReadFile = (\<lambda>tr name. case map_of files name of None \<Rightarrow> Inl (ErrNotExist name) | Some data \<Rightarrow> Inr data),
      TarWithOptions = (\<lambda>tr dir options. Inr 4),
      ReadAll = (\<lambda>tr out. Inr ''tarball''),
      WriteHeader = (\<lambda>tr header. None),
      Write = (\<lambda>tr data. None),
      Close_tar = (\<lambda>tr. None),
      Close_gzip = (\<lambda>tr. None),
      Bytes = (\<lambda>tr. ''archive''),
      Matches = (\<lambda>name patterns. Inr (name \<in> set patterns)),
      Rel = (\<lambda>root name. Inr (drop (length root + 1) name)),
      filepath_Join = (\<lambda>dir name. dir @ ''/'' @ name),
      path_Join = (\<lambda>dir name. dir @ ''/'' @ name),
      Sum256 = (\<lambda>data. data),
      EncodeToString = (\<lambda>data. data),
      url_Parse = (\<lambda>source.
         Inr \<lparr>Scheme = (if take 7 source = ''http://'' then ''http''
                         else if take 8 source = ''https://'' then ''https'' else [])\<rparr>)\<rparr>"

text \<open>
  A provider whose releases table answers every read with the given item, whose stack
  has the one parameter \<open>InstanceType\<close>, whose clock shows one instant and whose random
  source draws the letter A.
\<close>

definition example_aws :: "item \<Rightarrow> unit aws" where
  "example_aws source =
     \<lparr>GetItem = (\<lambda>tr table key. Inr source),
      PutItem = (\<lambda>tr table hashKey rangeKey attributes. None),
      appParams = (\<lambda>tr cluster app. Inr ()),
      AppShow = (\<lambda>tr cluster app. (Some \<lparr>Repository = []\<rparr>, None)),
      DescribeStacks = (\<lambda>tr stack token.
         Inr [\<lparr>Parameters = [\<lparr>ParameterKey = ''InstanceType'', ParameterValue = ''t2.small''\<rparr>]\<rparr>]),
      UpdateStack = (\<lambda>tr params. None),
      buildTemplate = (\<lambda>name params. Inr ''template''),
      Now_Format = (\<lambda>tr layout. ''20260101.120000.000000000''),
      SortableTime = ''20060102.150405.000000000'',
      rand_char = (\<lambda>tr i. CHR ''A'')\<rparr>"

text \<open>A rack that answers the first poll and refuses the connection from then on.\<close>

definition unreachable_rack :: rack where
  "unreachable_rack =
     (example_rack 1 ''complete'' ''20170101000000'')
       \<lparr>GetBuild := (\<lambda>tr app id'.
          if length (filter is_GetBuild tr) < 1
          then Inr \<lparr>Id' = id', Status = ''building'', Release = []\<rparr>
          else Inl (Error ''connection refused''))\<rparr>"

section \<open>The polling loop\<close>

lemma poll_history_0: "poll_history app id' tr 0 = tr"
  by (simp add: poll_history_def)

lemma poll_history_Suc:
  "poll_history app id' tr (Suc k) = poll_history app id' (tr @ [Call_GetBuild app id', Ev_Sleep 1]) k"
  by (simp add: poll_history_def)

lemma poll_history_Suc_end:
  "poll_history app id' tr (Suc k) = poll_history app id' tr k @ [Call_GetBuild app id', Ev_Sleep 1]"
proof -
  let ?p = "[Call_GetBuild app id', Ev_Sleep 1]"
  have "replicate (Suc k) ?p = replicate k ?p @ [?p]"
    by (simp only: replicate_append_same replicate_Suc)
  then have "concat (replicate (Suc k) ?p) = concat (replicate k ?p) @ ?p"
    by (simp only: concat_append concat.simps append_Nil2)
  then show ?thesis
    by (simp only: poll_history_def append_assoc)
qed

lemma waitForBuild_step:
  assumes "GetBuild r tr app id' = Inr b" and "\<not> terminal (Status b)"
  shows "waitForBuild (Suc fuel) r app id' tr =
         waitForBuild fuel r app id' (tr @ [Call_GetBuild app id', Ev_Sleep 1])"
  using assms by (simp add: terminal_def)

text \<open>As long as the polls answer a status that is not terminal, the loop goes on.\<close>

lemma waitForBuild_skip:
  "(\<forall>j<k. \<exists>b. poll r app id' tr j = Inr b \<and> \<not> terminal (Status b)) \<Longrightarrow>
   waitForBuild (k + n) r app id' tr = waitForBuild n r app id' (poll_history app id' tr k)"
proof (induction k arbitrary: tr)
  case 0
  show ?case by (simp add: poll_history_0)
next
  case (Suc k)
  from Suc.prems obtain b where b: "GetBuild r tr app id' = Inr b" "\<not> terminal (Status b)"
    by (auto simp: poll_def poll_history_0 dest: spec [of _ 0])
  have rest: "\<forall>j<k. \<exists>b. poll r app id' (tr @ [Call_GetBuild app id', Ev_Sleep 1]) j = Inr b
                \<and> \<not> terminal (Status b)"
  proof (intro allI impI)
    fix j assume "j < k"
    then have "Suc j < Suc k" by simp
    with Suc.prems show "\<exists>b. poll r app id' (tr @ [Call_GetBuild app id', Ev_Sleep 1]) j = Inr b
                \<and> \<not> terminal (Status b)"
      unfolding poll_def by (metis poll_history_Suc)
  qed
  have "waitForBuild (Suc k + n) r app id' tr =
        waitForBuild (k + n) r app id' (tr @ [Call_GetBuild app id', Ev_Sleep 1])"
    using waitForBuild_step [OF b] by simp
  also have "\<dots> = waitForBuild n r app id' (poll_history app id' (tr @ [Call_GetBuild app id', Ev_Sleep 1]) k)"
    by (rule Suc.IH [OF rest])
  finally show ?case by (simp add: poll_history_Suc)
qed

text \<open>
  C1. Whatever the polls of \<^const>\<open>waitForBuild\<close> answer: when the polls before number
  \<open>k\<close> answer statuses that are not terminal and poll \<open>k\<close> answers the build \<open>b\<close>, then,
  with fuel for more than \<open>k\<close> polls, a status \<open>complete\<close> makes the call return the
  \<^verbatim>\<open>Release\<close> field of \<open>b\<close>, \<open>error\<close> and \<open>failed\<close> make it fail with the message that
  the application's build failed, \<open>timeout\<close> with the message that it timed out, each
  right after that poll; and any other status makes it sleep and poll again, so that
  after these \<open>k + 1\<close> polls it has not returned.
\<close>

theorem waitForBuild_first_terminal:
  assumes quiet: "\<forall>j<k. \<exists>b. poll r app id' tr j = Inr b \<and> \<not> terminal (Status b)"
      and last: "poll r app id' tr k = Inr b"
      and fuel: "k < fuel"
  shows "(Status b = ''complete'' \<longrightarrow>
            waitForBuild fuel r app id' tr =
              (Some (Inr (Release b)), poll_history app id' tr k @ [Call_GetBuild app id']))
       \<and> (Status b = ''error'' \<or> Status b = ''failed'' \<longrightarrow>
            waitForBuild fuel r app id' tr =
              (Some (Inl (Error (app @ '' build failed''))), poll_history app id' tr k @ [Call_GetBuild app id']))
       \<and> (Status b = ''timeout'' \<longrightarrow>
            waitForBuild fuel r app id' tr =
              (Some (Inl (Error (app @ '' build timed out''))), poll_history app id' tr k @ [Call_GetBuild app id']))
       \<and> (\<not> terminal (Status b) \<longrightarrow>
            waitForBuild fuel r app id' tr =
              waitForBuild (fuel - Suc k) r app id' (poll_history app id' tr (Suc k))
          \<and> waitForBuild (Suc k) r app id' tr = (None, poll_history app id' tr (Suc k)))"
proof -
  from fuel obtain n where n: "fuel = k + Suc n"
    by (metis less_imp_Suc_add add_Suc_right)
  have skip: "waitForBuild (k + m) r app id' tr = waitForBuild m r app id' (poll_history app id' tr k)" for m
    by (rule waitForBuild_skip [OF quiet])
  have here: "GetBuild r (poll_history app id' tr k) app id' = Inr b"
    using last by (simp add: poll_def)
  note hist = poll_history_Suc_end [of app id' tr k]
  show ?thesis
    unfolding n skip using here skip [of 1] hist
    by (simp add: terminal_def)
qed

theorem waitForBuild_first_terminal_witness:
  "poll (example_rack 2 ''complete'' []) ''web'' ''B1'' [] 0
        = Inr \<lparr>Id' = ''B1'', Status = ''building'', Release = []\<rparr>
   \<and> poll (example_rack 2 ''complete'' []) ''web'' ''B1'' [] 1
        = Inr \<lparr>Id' = ''B1'', Status = ''building'', Release = []\<rparr>
   \<and> \<not> terminal ''building''
   \<and> poll (example_rack 2 ''complete'' []) ''web'' ''B1'' [] 2
        = Inr \<lparr>Id' = ''B1'', Status = ''complete'', Release = ''R1''\<rparr>
   \<and> waitForBuild 3 (example_rack 2 ''complete'' []) ''web'' ''B1'' []
        = (Some (Inr ''R1''),
           [Call_GetBuild ''web'' ''B1'', Ev_Sleep 1, Call_GetBuild ''web'' ''B1'', Ev_Sleep 1,
            Call_GetBuild ''web'' ''B1''])
   \<and> fst (waitForBuild 3 (example_rack 1 ''failed'' []) ''web'' ''B1'' [])
        = Some (Inl (Error ''web build failed''))
   \<and> fst (waitForBuild 1 (example_rack 0 ''timeout'' []) ''web'' ''B1'' [])
        = Some (Inl (Error ''web build timed out''))
   \<and> fst (waitForBuild 2 (example_rack 1 ''deploying'' []) ''web'' ''B1'' []) = None"
proof -
  let ?b = "\<lambda>s. \<lparr>Id' = ''B1'', Status = s, Release = ''R1''\<rparr>"
  have q2: "\<forall>j<2. \<exists>b. poll (example_rack 2 ''complete'' []) ''web'' ''B1'' [] j = Inr b \<and> \<not> terminal (Status b)"
    by (auto simp: poll_def poll_history_def example_rack_def terminal_def numeral_2_eq_2 less_Suc_eq)
  have l2: "poll (example_rack 2 ''complete'' []) ''web'' ''B1'' [] 2 = Inr (?b ''complete'')"
    by (simp add: poll_def poll_history_def example_rack_def numeral_2_eq_2)
  have q1: "\<forall>j<1. \<exists>b. poll (example_rack 1 s []) ''web'' ''B1'' [] j = Inr b \<and> \<not> terminal (Status b)" for s
    by (auto simp: poll_def poll_history_def example_rack_def terminal_def)
  have l1: "poll (example_rack 1 s []) ''web'' ''B1'' [] 1 = Inr (?b s)" for s
    by (simp add: poll_def poll_history_def example_rack_def)
  have q0: "\<forall>j<0. \<exists>b. poll (example_rack 0 ''timeout'' []) ''web'' ''B1'' [] j = Inr b \<and> \<not> terminal (Status b)"
    by simp
  have l0: "poll (example_rack 0 ''timeout'' []) ''web'' ''B1'' [] 0 = Inr (?b ''timeout'')"
    by (simp add: poll_def poll_history_def example_rack_def)
  have "(2::nat) < 3" "(1::nat) < 3" "(0::nat) < 1" "(1::nat) < 2" by simp_all
  note a = waitForBuild_first_terminal [OF q2 l2 \<open>2 < 3\<close>]
   and b = waitForBuild_first_terminal [OF q1 l1 \<open>1 < 3\<close>, of "''failed''"]
   and c = waitForBuild_first_terminal [OF q0 l0 \<open>0 < 1\<close>]
   and d = waitForBuild_first_terminal [OF q1 l1 \<open>1 < 2\<close>, of "''deploying''"]
  have p01: "poll (example_rack 2 ''complete'' []) ''web'' ''B1'' [] 0
               = Inr \<lparr>Id' = ''B1'', Status = ''building'', Release = []\<rparr>"
            "poll (example_rack 2 ''complete'' []) ''web'' ''B1'' [] 1
               = Inr \<lparr>Id' = ''B1'', Status = ''building'', Release = []\<rparr>"
    by (simp_all add: poll_def poll_history_def example_rack_def)
  show ?thesis
    using p01 l2 a b c d
    by (simp add: poll_history_def terminal_def numeral_2_eq_2)
qed

text \<open>A poll that fails ends the loop at once with the error of the poll.\<close>

lemma waitForBuild_poll_error:
  assumes quiet: "\<forall>j<k. \<exists>b. poll r app id' tr j = Inr b \<and> \<not> terminal (Status b)"
      and last: "poll r app id' tr k = Inl err"
      and fuel: "k < fuel"
  shows "waitForBuild fuel r app id' tr = (Some (Inl err), poll_history app id' tr k @ [Call_GetBuild app id'])"
proof -
  from fuel obtain n where n: "fuel = k + Suc n"
    by (metis less_imp_Suc_add add_Suc_right)
  have "GetBuild r (poll_history app id' tr k) app id' = Inl err"
    using last by (simp add: poll_def)
  then show ?thesis
    unfolding n waitForBuild_skip [OF quiet] by simp
qed

section \<open>Log streaming and polling in finishBuild\<close>

lemma finishBuild_streamed:
  assumes "Id' build \<noteq> []" and "StreamBuildLogs r tr app (Id' build) = None"
  shows "finishBuild fuel r app build tr =
         waitForBuild fuel r app (Id' build) (tr @ [Call_StreamBuildLogs app (Id' build)])"
  using assms by (simp add: finishBuild_def split: prod.splits option.splits sum.splits)

text \<open>
  C6 as stated does not hold: the rack \<^const>\<open>broken_logs_rack\<close> answers the
  first poll with the status \<open>complete\<close> and the release \<open>R1\<close>, and its log stream
  fails; \<^const>\<open>finishBuild\<close> returns the error of the log stream and never polls.
\<close>

theorem finishBuild_broken_logs:
  "finishBuild 3 broken_logs_rack ''web'' \<lparr>Id' = ''B1'', Status = ''created'', Release = []\<rparr> []
     = (Some (Inl (Error ''log stream closed'')), [Call_StreamBuildLogs ''web'' ''B1''])
   \<and> waitForBuild 3 broken_logs_rack ''web'' ''B1'' [Call_StreamBuildLogs ''web'' ''B1'']
     = (Some (Inr ''R1''), [Call_StreamBuildLogs ''web'' ''B1'', Call_GetBuild ''web'' ''B1''])"
  by (simp add: finishBuild_def broken_logs_rack_def example_rack_def numeral_3_eq_3)

text \<open>
  C6, amended. For a build with an identifier: when \<^verbatim>\<open>StreamBuildLogs\<close> fails,
  \<^const>\<open>finishBuild\<close> returns that error at once, before any poll; when it succeeds,
  the result of \<^const>\<open>finishBuild\<close> is the result of the polling loop
  \<^const>\<open>waitForBuild\<close> and nothing else; and a poll that fails, after polls that
  answered statuses that are not terminal, makes \<^const>\<open>finishBuild\<close> return the
  error of that poll right after it.
\<close>

theorem finishBuild_outcome:
  assumes "Id' build \<noteq> []"
  shows "(StreamBuildLogs r tr app (Id' build) = Some err \<longrightarrow>
            finishBuild fuel r app build tr = (Some (Inl err), tr @ [Call_StreamBuildLogs app (Id' build)]))
       \<and> (StreamBuildLogs r tr app (Id' build) = None \<longrightarrow>
            finishBuild fuel r app build tr =
              waitForBuild fuel r app (Id' build) (tr @ [Call_StreamBuildLogs app (Id' build)]))
       \<and> (StreamBuildLogs r tr app (Id' build) = None
            \<and> (\<forall>j<k. \<exists>b. poll r app (Id' build) (tr @ [Call_StreamBuildLogs app (Id' build)]) j = Inr b
                          \<and> \<not> terminal (Status b))
            \<and> poll r app (Id' build) (tr @ [Call_StreamBuildLogs app (Id' build)]) k = Inl err'
            \<and> k < fuel \<longrightarrow>
            finishBuild fuel r app build tr =
              (Some (Inl err'),
               poll_history app (Id' build) (tr @ [Call_StreamBuildLogs app (Id' build)]) k
                 @ [Call_GetBuild app (Id' build)]))"
proof (intro conjI impI)
  assume "StreamBuildLogs r tr app (Id' build) = Some err"
  with assms show "finishBuild fuel r app build tr = (Some (Inl err), tr @ [Call_StreamBuildLogs app (Id' build)])"
    by (simp add: finishBuild_def)
next
  assume "StreamBuildLogs r tr app (Id' build) = None"
  with assms show "finishBuild fuel r app build tr =
      waitForBuild fuel r app (Id' build) (tr @ [Call_StreamBuildLogs app (Id' build)])"
    by (rule finishBuild_streamed)
next
  let ?tr = "tr @ [Call_StreamBuildLogs app (Id' build)]"
  assume a: "StreamBuildLogs r tr app (Id' build) = None
            \<and> (\<forall>j<k. \<exists>b. poll r app (Id' build) ?tr j = Inr b \<and> \<not> terminal (Status b))
            \<and> poll r app (Id' build) ?tr k = Inl err' \<and> k < fuel"
  then have "waitForBuild fuel r app (Id' build) ?tr =
      (Some (Inl err'), poll_history app (Id' build) ?tr k @ [Call_GetBuild app (Id' build)])"
    by (intro waitForBuild_poll_error) simp_all
  with a assms show "finishBuild fuel r app build tr =
      (Some (Inl err'), poll_history app (Id' build) ?tr k @ [Call_GetBuild app (Id' build)])"
    by (simp add: finishBuild_streamed)
qed

theorem finishBuild_outcome_witness:
  "finishBuild 3 broken_logs_rack ''web'' \<lparr>Id' = ''B1'', Status = ''created'', Release = []\<rparr> []
     = (Some (Inl (Error ''log stream closed'')), [Call_StreamBuildLogs ''web'' ''B1''])
   \<and> finishBuild 3 unreachable_rack ''web'' \<lparr>Id' = ''B1'', Status = ''created'', Release = []\<rparr> []
     = (Some (Inl (Error ''connection refused'')),
        [Call_StreamBuildLogs ''web'' ''B1'', Call_GetBuild ''web'' ''B1'', Ev_Sleep 1,
         Call_GetBuild ''web'' ''B1''])"
proof -
  let ?b = "\<lparr>Id' = ''B1'', Status = ''created'', Release = []\<rparr>"
  have id: "Id' ?b \<noteq> []" by simp
  have s1: "StreamBuildLogs broken_logs_rack [] ''web'' (Id' ?b) = Some (Error ''log stream closed'')"
    by (simp add: broken_logs_rack_def example_rack_def)
  have s2: "StreamBuildLogs unreachable_rack [] ''web'' (Id' ?b) = None
      \<and> (\<forall>j<1. \<exists>b. poll unreachable_rack ''web'' (Id' ?b) ([] @ [Call_StreamBuildLogs ''web'' (Id' ?b)]) j = Inr b
                          \<and> \<not> terminal (Status b))
      \<and> poll unreachable_rack ''web'' (Id' ?b) ([] @ [Call_StreamBuildLogs ''web'' (Id' ?b)]) 1
           = Inl (Error ''connection refused'')
      \<and> (1::nat) < 3"
    by (simp add: unreachable_rack_def example_rack_def poll_def poll_history_def terminal_def)
  have a: "finishBuild 3 broken_logs_rack ''web'' ?b []
             = (Some (Inl (Error ''log stream closed'')), [Call_StreamBuildLogs ''web'' ''B1''])"
    using finishBuild_outcome [OF id, of broken_logs_rack "[]" "''web''" "Error ''log stream closed''" 3] s1
    by simp
  have b: "finishBuild 3 unreachable_rack ''web'' ?b []
             = (Some (Inl (Error ''connection refused'')),
                poll_history ''web'' (Id' ?b) ([] @ [Call_StreamBuildLogs ''web'' (Id' ?b)]) 1
                  @ [Call_GetBuild ''web'' (Id' ?b)])"
    by (rule finishBuild_outcome [OF id, THEN conjunct2, THEN conjunct2, THEN mp, OF s2])
  show ?thesis
    using a b by (simp add: poll_history_def)
qed

section \<open>The short cut of uploadIndex\<close>

text \<open>
  C4. When the rack reports no missing hash for an index, \<^const>\<open>uploadIndex\<close>
  returns without an error and the one thing it has done is the \<^verbatim>\<open>IndexMissing\<close> call:
  no file is read, nothing is written to the tar writer and \<^verbatim>\<open>IndexUpdate\<close> is not
  called.
\<close>

theorem uploadIndex_nothing_missing:
  assumes "IndexMissing r tr index = Inr []"
  shows "uploadIndex os r index tr = (None, tr @ [Call_IndexMissing index])"
  using assms by (simp add: uploadIndex_def)

theorem uploadIndex_nothing_missing_witness:
  "IndexMissing (example_rack 0 ''complete'' []) [] Map.empty = Inr []
   \<and> uploadIndex (example_os None []) (example_rack 0 ''complete'' []) Map.empty []
       = (None, [Call_IndexMissing Map.empty])"
proof -
  have h: "IndexMissing (example_rack 0 ''complete'' []) [] Map.empty = Inr []"
    by (simp add: example_rack_def)
  show ?thesis
    using h uploadIndex_nothing_missing [OF h, of "example_os None []"] by simp
qed

section \<open>The downgrade of an incremental build\<close>










section \<open>The files createTarball keeps\<close>

text \<open>
  C9. When \<^const>\<open>createTarball\<close> has read the patterns of the ignore file and they
  match the name \<open>.dockerignore\<close> or the name \<open>Dockerfile\<close>, it asks
  \<^verbatim>\<open>archive.TarWithOptions\<close> for an archive whose \<^verbatim>\<open>IncludeFiles\<close> name both files
  next to the directory itself, and the bytes it returns are the ones read from that
  archive.
\<close>

theorem createTarball_keeps_both:
  assumes "Getwd os tr = Inr cwd"
      and "EvalSymlinks os (tr @ [Ev_Getwd]) base = Inr sym'"
      and "Chdir os (tr @ [Ev_Getwd, Ev_EvalSymlinks base]) sym' = None"
      and "Open os (tr @ [Ev_Getwd, Ev_EvalSymlinks base, Ev_Chdir sym'])
             (path_Join os sym' ''.dockerignore'') = Inr fd"
      and "dockerignore_ReadAll os
             (tr @ [Ev_Getwd, Ev_EvalSymlinks base, Ev_Chdir sym',
                    Ev_Open (path_Join os sym' ''.dockerignore'')]) fd = Inr excludes"
      and "Matches os ''.dockerignore'' excludes = Inr True \<or> Matches os ''Dockerfile'' excludes = Inr True"
      and "options = \<lparr>Compression = Gzip, ExcludePatterns = excludes,
                       IncludeFiles = [''.'', ''.dockerignore'', ''Dockerfile'']\<rparr>"
      and "tr2 = tr @ [Ev_Getwd, Ev_EvalSymlinks base, Ev_Chdir sym',
                       Ev_Open (path_Join os sym' ''.dockerignore''), Ev_ReadAll_dockerignore fd]"
  shows "(\<exists>rest. snd (createTarball os base tr) = tr2 @ Ev_TarWithOptions sym' options # rest)
       \<and> (\<forall>bytes tr'. createTarball os base tr = (Inr bytes, tr') \<longrightarrow>
            (\<exists>out. TarWithOptions os tr2 sym' options = Inr out
                 \<and> ReadAll os (tr2 @ [Ev_TarWithOptions sym' options]) out = Inr bytes))"
proof -
  have opts: "tarOptions os excludes = options"
    using assms(6,7) by (auto simp: tarOptions_def keepThem_def Let_def)
  have run: "createTarball os base tr = archive os cwd sym' excludes tr2"
    using assms(1-5,8) by (simp add: createTarball_def Let_def)
  show ?thesis
    unfolding run by (auto simp: archive_def opts Let_def split: sum.splits option.splits)
qed

theorem createTarball_keeps_both_witness:
  "Matches (example_os (Some [''Dockerfile'', ''.git'']) []) ''Dockerfile'' [''Dockerfile'', ''.git''] = Inr True
   \<and> createTarball (example_os (Some [''Dockerfile'', ''.git'']) []) ''/src'' []
     = (Inr ''tarball'',
        [Ev_Getwd, Ev_EvalSymlinks ''/src'', Ev_Chdir ''/src'', Ev_Open ''/src/.dockerignore'',
         Ev_ReadAll_dockerignore 3,
         Ev_TarWithOptions ''/src''
           \<lparr>Compression = Gzip, ExcludePatterns = [''Dockerfile'', ''.git''],
            IncludeFiles = [''.'', ''.dockerignore'', ''Dockerfile'']\<rparr>,
         Ev_ReadAll 4, Ev_Chdir ''/home''])
   \<and> (\<exists>rest. snd (createTarball (example_os (Some [''Dockerfile'', ''.git'']) []) ''/src'' [])
        = [Ev_Getwd, Ev_EvalSymlinks ''/src'', Ev_Chdir ''/src'', Ev_Open ''/src/.dockerignore'',
           Ev_ReadAll_dockerignore 3]
          @ Ev_TarWithOptions ''/src''
             \<lparr>Compression = Gzip, ExcludePatterns = [''Dockerfile'', ''.git''],
              IncludeFiles = [''.'', ''.dockerignore'', ''Dockerfile'']\<rparr> # rest)"
proof -
  let ?os = "example_os (Some [''Dockerfile'', ''.git'']) []"
  let ?ex = "[''Dockerfile'', ''.git'']"
  have m: "Matches ?os ''Dockerfile'' ?ex = Inr True"
    by (simp add: example_os_def)
  have run: "createTarball ?os ''/src'' []
     = (Inr ''tarball'',
        [Ev_Getwd, Ev_EvalSymlinks ''/src'', Ev_Chdir ''/src'', Ev_Open ''/src/.dockerignore'',
         Ev_ReadAll_dockerignore 3,
         Ev_TarWithOptions ''/src''
           \<lparr>Compression = Gzip, ExcludePatterns = ?ex,
            IncludeFiles = [''.'', ''.dockerignore'', ''Dockerfile'']\<rparr>,
         Ev_ReadAll 4, Ev_Chdir ''/home''])"
    by (simp add: createTarball_def archive_def tarOptions_def keepThem_def example_os_def)
  have t: "\<exists>rest. snd (createTarball ?os ''/src'' [])
        = ([] @ [Ev_Getwd, Ev_EvalSymlinks ''/src'', Ev_Chdir ''/src'',
                 Ev_Open (path_Join ?os ''/src'' ''.dockerignore''), Ev_ReadAll_dockerignore 3])
          @ Ev_TarWithOptions ''/src''
             \<lparr>Compression = Gzip, ExcludePatterns = ?ex,
              IncludeFiles = [''.'', ''.dockerignore'', ''Dockerfile'']\<rparr> # rest"
    by (rule createTarball_keeps_both [where cwd = "''/home''" and fd = 3, THEN conjunct1])
       (simp_all add: example_os_def)
  have p: "path_Join ?os ''/src'' ''.dockerignore'' = ''/src/.dockerignore''"
    by (simp add: example_os_def)
  show ?thesis
    using m run t unfolding p by simp
qed

section \<open>One index entry for one content\<close>

text \<open>
  What \<^const>\<open>indexWalker\<close> does to the index depends on the entry alone once the
  file system answers every read of a path in the same way: an indexed entry adds the
  hash of its content to the keys, any other entry adds nothing.
\<close>

lemma indexWalker_stored:
  assumes "indexed os root ignore entry" and "ReadFile os tr (fst entry) = Inr data"
  shows "\<exists>item. indexWalker os root ignore entry (index, tr) =
           (None, index(EncodeToString os (Sum256 os data) \<mapsto> item), tr @ [Ev_ReadFile (fst entry)])
         \<and> Size item = length data"
  using assms
  by (cases entry) (auto simp: indexWalker_def indexed_def Let_def split: sum.splits option.splits)

lemma indexWalker_dom:
  assumes "\<And>h p. ReadFile os h p = rf p"
      and "indexWalker os root ignore entry (index, tr) = (None, index1, tr1)"
  shows "dom index1 = (if indexed os root ignore entry
                       then insert (content_hash os rf entry) (dom index) else dom index)"
  using assms
  by (cases entry)
     (auto simp: indexWalker_def indexed_def content_hash_def Let_def
           split: sum.splits option.splits if_splits)

lemma walk_dom:
  assumes "\<And>h p. ReadFile os h p = rf p"
      and "walk (indexWalker os root ignore) entries (index, tr) = (None, index', tr')"
  shows "dom index' = dom index \<union> content_hash os rf ` {e \<in> set entries. indexed os root ignore e}"
  using assms(2)
proof (induction entries arbitrary: index tr)
  case Nil
  then show ?case by simp
next
  case (Cons entry entries)
  obtain e index1 tr1 where step: "indexWalker os root ignore entry (index, tr) = (e, index1, tr1)"
    by (cases "indexWalker os root ignore entry (index, tr)")
  with Cons.prems have e: "e = None"
    and rest: "walk (indexWalker os root ignore) entries (index1, tr1) = (None, index', tr')"
    by (auto split: option.splits)
  have "dom index' = dom index1 \<union> content_hash os rf ` {e \<in> set entries. indexed os root ignore e}"
    by (rule Cons.IH [OF rest])
  moreover have "dom index1 = (if indexed os root ignore entry
                       then insert (content_hash os rf entry) (dom index) else dom index)"
    using indexWalker_dom [OF assms(1)] step e by simp
  ultimately show ?case by auto
qed

text \<open>
  C10. On a file system that answers every read of a path in the same way, take a walk
  that ends without an error and two of its entries at different paths, both regular
  files that the ignore rules do not match, both with the content \<open>data\<close>. Then
  \<^const>\<open>indexWalker\<close> stores both under the same key, the hash of \<open>data\<close>; the index
  after the walk has an entry for that key (a map, it has one); and the walk has added
  fewer keys to the index than it has indexed files.
\<close>

theorem indexWalker_deduplicates:
  assumes stable: "\<And>h p. ReadFile os h p = rf p"
      and walked: "walk (indexWalker os root ignore) entries (index, tr) = (None, index', tr')"
      and e1: "e1 \<in> set entries" "indexed os root ignore e1" "rf (fst e1) = Inr data"
      and e2: "e2 \<in> set entries" "indexed os root ignore e2" "rf (fst e2) = Inr data"
      and paths: "fst e1 \<noteq> fst e2"
      and hash: "hash = EncodeToString os (Sum256 os data)"
  shows "(\<exists>item1 item2.
            indexWalker os root ignore e1 (index0, tr0)
              = (None, index0(hash \<mapsto> item1), tr0 @ [Ev_ReadFile (fst e1)])
          \<and> indexWalker os root ignore e2 (index0, tr0)
              = (None, index0(hash \<mapsto> item2), tr0 @ [Ev_ReadFile (fst e2)]))
       \<and> (\<exists>item. index' hash = Some item)
       \<and> card (dom index' - dom index) < card {e \<in> set entries. indexed os root ignore e}"
proof (intro conjI)
  show "\<exists>item1 item2.
            indexWalker os root ignore e1 (index0, tr0)
              = (None, index0(hash \<mapsto> item1), tr0 @ [Ev_ReadFile (fst e1)])
          \<and> indexWalker os root ignore e2 (index0, tr0)
              = (None, index0(hash \<mapsto> item2), tr0 @ [Ev_ReadFile (fst e2)])"
    using indexWalker_stored [OF e1(2), of tr0 data index0]
          indexWalker_stored [OF e2(2), of tr0 data index0] e1(3) e2(3)
    by (auto simp: stable hash)
next
  let ?S = "{e \<in> set entries. indexed os root ignore e}"
  have dom: "dom index' = dom index \<union> content_hash os rf ` ?S"
    by (rule walk_dom [OF stable walked])
  have k1: "content_hash os rf e1 = hash" and k2: "content_hash os rf e2 = hash"
    using e1(3) e2(3) by (simp_all add: content_hash_def hash)
  have "hash \<in> dom index'"
    using dom k1 e1(1,2) by auto
  then show "\<exists>item. index' hash = Some item" by auto
  have fin: "finite ?S" by simp
  have "e1 \<in> ?S" "e2 \<in> ?S" "e1 \<noteq> e2"
    using e1 e2 paths by auto
  have "\<not> inj_on (content_hash os rf) ?S"
  proof
    assume "inj_on (content_hash os rf) ?S"
    from inj_onD [OF this _ \<open>e1 \<in> ?S\<close> \<open>e2 \<in> ?S\<close>] k1 k2 \<open>e1 \<noteq> e2\<close>
    show False by simp
  qed
  then have "card (content_hash os rf ` ?S) \<noteq> card ?S"
    using eq_card_imp_inj_on [OF fin] by blast
  moreover have "card (content_hash os rf ` ?S) \<le> card ?S"
    by (rule card_image_le [OF fin])
  ultimately have less: "card (content_hash os rf ` ?S) < card ?S" by simp
  have "dom index' - dom index \<subseteq> content_hash os rf ` ?S"
    using dom by auto
  then have "card (dom index' - dom index) \<le> card (content_hash os rf ` ?S)"
    by (intro card_mono) (simp_all add: fin)
  with less show "card (dom index' - dom index) < card ?S" by simp
qed

theorem indexWalker_deduplicates_witness:
  "walk (indexWalker (example_os None [(''/src/a.txt'', ''hello''), (''/src/b.txt'', ''hello'')]) ''/src'' [])
        (Walk (example_os None [(''/src/a.txt'', ''hello''), (''/src/b.txt'', ''hello'')]) [] ''/src'')
        (Map.empty, [])
     = (None, [''hello'' \<mapsto> \<lparr>Name = ''b.txt'', Mode = 420, ModTime = 0, Size = length ''hello''\<rparr>],
        [Ev_ReadFile ''/src/a.txt'', Ev_ReadFile ''/src/b.txt''])
   \<and> (\<exists>item. [''hello'' \<mapsto> \<lparr>Name = ''b.txt'', Mode = 420, ModTime = 0, Size = length ''hello''\<rparr>] ''hello'' = Some item)
   \<and> card (dom [''hello'' \<mapsto> \<lparr>Name = ''b.txt'', Mode = 420, ModTime = 0, Size = length ''hello''\<rparr>] - dom (Map.empty :: Index))
       < card {e \<in> set (Walk (example_os None [(''/src/a.txt'', ''hello''), (''/src/b.txt'', ''hello'')]) [] ''/src'').
               indexed (example_os None [(''/src/a.txt'', ''hello''), (''/src/b.txt'', ''hello'')]) ''/src'' [] e}"
proof -
  let ?files = "[(''/src/a.txt'', ''hello''), (''/src/b.txt'', ''hello'')]"
  let ?os = "example_os None ?files"
  let ?rf = "\<lambda>name. case map_of ?files name of None \<Rightarrow> Inl (ErrNotExist name) | Some data \<Rightarrow> Inr data"
  let ?info = "Some \<lparr>IsDir = False, Info_Mode = 420, Info_ModTime = 0\<rparr>"
  let ?index = "[''hello'' \<mapsto> \<lparr>Name = ''b.txt'', Mode = 420, ModTime = 0, Size = length ''hello''\<rparr>]"
  have stable: "\<And>h p. ReadFile ?os h p = ?rf p"
    by (simp add: example_os_def)
  have walked: "walk (indexWalker ?os ''/src'' []) (Walk ?os [] ''/src'') (Map.empty, [])
     = (None, ?index, [Ev_ReadFile ''/src/a.txt'', Ev_ReadFile ''/src/b.txt''])"
    by (simp add: indexWalker_def example_os_def)
  have e1: "(''/src/a.txt'', ?info) \<in> set (Walk ?os [] ''/src'')"
           "indexed ?os ''/src'' [] (''/src/a.txt'', ?info)"
           "?rf (fst (''/src/a.txt'', ?info)) = Inr ''hello''"
    by (simp_all add: example_os_def indexed_def)
  have e2: "(''/src/b.txt'', ?info) \<in> set (Walk ?os [] ''/src'')"
           "indexed ?os ''/src'' [] (''/src/b.txt'', ?info)"
           "?rf (fst (''/src/b.txt'', ?info)) = Inr ''hello''"
    by (simp_all add: example_os_def indexed_def)
  have paths: "fst (''/src/a.txt'', ?info) \<noteq> fst (''/src/b.txt'', ?info)"
    by simp
  have hash: "''hello'' = EncodeToString ?os (Sum256 ?os ''hello'')"
    by (simp add: example_os_def)
  note t = indexWalker_deduplicates [OF stable walked e1 e2 paths hash]
  show ?thesis
    by (rule conjI [OF walked t [THEN conjunct2]])
qed

section \<open>Promotion\<close>

text \<open>
  C3. When \<^const>\<open>ReleasePromote\<close> gets as far as the stack update, that is when
  \<^const>\<open>releaseFormation\<close> has not panicked, \<^verbatim>\<open>AppShow\<close> has answered without an
  error and \<^verbatim>\<open>DescribeStacks\<close> has answered with a stack \<open>s\<close>, the last thing it does
  is one \<^verbatim>\<open>UpdateStack\<close> request whose parameters are the parameters of \<open>s\<close>, in their
  order and unchanged, followed by the one parameter with the key \<open>Release\<close> and the
  release identifier as its value.
\<close>

theorem ReleasePromote_parameters:
  assumes "releaseFormation aws cluster app release tr = (result, tr1)"
      and "\<forall>p. result \<noteq> Inl (Panic p)"
      and "AppShow aws tr1 cluster app = (Some a, None)"
      and "DescribeStacks aws (tr1 @ [Call_AppShow cluster app]) (cluster @ ''-'' @ app) [] = Inr (s # stacks)"
  shows "snd (ReleasePromote aws cluster app release tr) =
           tr1 @ [Call_AppShow cluster app, Call_DescribeStacks (cluster @ ''-'' @ app) [],
                  Call_UpdateStack
                    \<lparr>StackName = cluster @ ''-'' @ app,
                     TemplateBody = (case result of Inl err \<Rightarrow> [] | Inr template \<Rightarrow> template),
                     UpdateParameters = Parameters s @
                       [\<lparr>ParameterKey = ''Release'', ParameterValue = release\<rparr>]\<rparr>]"
  using assms
  by (simp add: ReleasePromote_def Let_def split: sum.splits error.splits)

theorem ReleasePromote_parameters_witness:
  "snd (ReleasePromote
          (example_aws [(''ami'', NewStringAttribute ''ami'' ''ami-1''),
                        (''manifest'', NewStringAttribute ''manifest'' ''web: {}'')])
          ''c'' ''a'' ''R9'' [])
     = [Call_GetItem ''c-a-releases'' ''R9'' [], Call_appParams ''c'' ''a'',
        Call_AppShow ''c'' ''a'', Call_DescribeStacks ''c-a'' [],
        Call_UpdateStack
          \<lparr>StackName = ''c-a'', TemplateBody = ''template'',
           UpdateParameters = [\<lparr>ParameterKey = ''InstanceType'', ParameterValue = ''t2.small''\<rparr>,
                               \<lparr>ParameterKey = ''Release'', ParameterValue = ''R9''\<rparr>]\<rparr>]"
proof -
  let ?aws = "example_aws [(''ami'', NewStringAttribute ''ami'' ''ami-1''),
                           (''manifest'', NewStringAttribute ''manifest'' ''web: {}'')]"
  let ?tr1 = "[Call_GetItem ''c-a-releases'' ''R9'' [], Call_appParams ''c'' ''a'']"
  have 1: "releaseFormation ?aws ''c'' ''a'' ''R9'' [] = (Inr ''template'', ?tr1)"
    by (simp add: releaseFormation_def releasesTable_def example_aws_def NewStringAttribute_def)
  have 2: "\<forall>p. (Inr ''template'' :: error + string) \<noteq> Inl (Panic p)"
    by simp
  have 3: "AppShow ?aws ?tr1 ''c'' ''a'' = (Some \<lparr>Repository = []\<rparr>, None)"
    by (simp add: example_aws_def)
  have 4: "DescribeStacks ?aws (?tr1 @ [Call_AppShow ''c'' ''a'']) (''c'' @ ''-'' @ ''a'') []
           = Inr (\<lparr>Parameters = [\<lparr>ParameterKey = ''InstanceType'', ParameterValue = ''t2.small''\<rparr>]\<rparr> # [])"
    by (simp add: example_aws_def)
  show ?thesis
    using ReleasePromote_parameters [OF 1 2 3 4] by simp
qed

text \<open>
  C7, evaluated on the code: for a release record with no \<open>ami\<close>, and for one whose
  \<open>ami\<close> is empty, \<^const>\<open>releaseFormation\<close> returns the error \<open>invalid ami\<close>, and
  \<^const>\<open>ReleasePromote\<close>, which only prints that error, goes on, issues the stack
  update with an empty template body and returns no error.
\<close>

theorem ReleasePromote_invalid_ami:
  "releaseFormation (example_aws [(''id'', NewStringAttribute ''id'' ''R1'')]) ''c'' ''a'' ''R1'' []
     = (Inl (Error ''invalid ami''), [Call_GetItem ''c-a-releases'' ''R1'' []])
   \<and> ReleasePromote (example_aws [(''id'', NewStringAttribute ''id'' ''R1'')]) ''c'' ''a'' ''R1'' []
     = (None,
        [Call_GetItem ''c-a-releases'' ''R1'' [], Call_AppShow ''c'' ''a'', Call_DescribeStacks ''c-a'' [],
         Call_UpdateStack
           \<lparr>StackName = ''c-a'', TemplateBody = [],
            UpdateParameters = [\<lparr>ParameterKey = ''InstanceType'', ParameterValue = ''t2.small''\<rparr>,
                                \<lparr>ParameterKey = ''Release'', ParameterValue = ''R1''\<rparr>]\<rparr>])
   \<and> releaseFormation (example_aws [(''ami'', NewStringAttribute ''ami'' [])]) ''c'' ''a'' ''R1'' []
     = (Inl (Error ''invalid ami''), [Call_GetItem ''c-a-releases'' ''R1'' []])
   \<and> ReleasePromote (example_aws [(''ami'', NewStringAttribute ''ami'' [])]) ''c'' ''a'' ''R1'' []
     = (None,
        [Call_GetItem ''c-a-releases'' ''R1'' [], Call_AppShow ''c'' ''a'', Call_DescribeStacks ''c-a'' [],
         Call_UpdateStack
           \<lparr>StackName = ''c-a'', TemplateBody = [],
            UpdateParameters = [\<lparr>ParameterKey = ''InstanceType'', ParameterValue = ''t2.small''\<rparr>,
                                \<lparr>ParameterKey = ''Release'', ParameterValue = ''R1''\<rparr>]\<rparr>])"
  by (simp add: ReleasePromote_def releaseFormation_def releasesTable_def example_aws_def
                NewStringAttribute_def)

section \<open>The release store\<close>

text \<open>
  C8, evaluated on the code: the record \<^const>\<open>ReleaseCreate\<close> puts has the field
  \<open>created-at\<close> with the text \<open>now\<close> as its value, whatever the time, and no field
  \<open>created\<close> unless the caller's options have one, which is then put as the caller
  gave it.
\<close>

theorem ReleaseCreate_created_at_now:
  "ReleaseCreate (example_aws []) ''c'' ''a'' ''ami-1'' [] []
     = (None,
        [Call_PutItem ''c-a-releases'' ''ami-1'' []
           [\<lparr>Attribute_Name = ''ami'', Value = ''ami-1''\<rparr>,
            \<lparr>Attribute_Name = ''created-at'', Value = ''now''\<rparr>]])
   \<and> ReleaseCreate (example_aws []) ''c'' ''a'' ''ami-1'' [(''created'', ''yesterday'')] []
     = (None,
        [Call_PutItem ''c-a-releases'' ''ami-1'' []
           [\<lparr>Attribute_Name = ''ami'', Value = ''ami-1''\<rparr>,
            \<lparr>Attribute_Name = ''created-at'', Value = ''now''\<rparr>,
            \<lparr>Attribute_Name = ''created'', Value = ''yesterday''\<rparr>]])"
  by (simp add: ReleaseCreate_def releasesTable_def example_aws_def NewStringAttribute_def)

text \<open>
  C5 as stated does not hold: the source record has no field \<open>created\<close> (it has
  the fields \<^const>\<open>ReleaseCreate\<close> writes) and the identifier \<open>RAAAAAAAAA\<close>, and the
  random source draws the letter A nine times. \<^const>\<open>ReleaseCopy\<close> reads no clock and
  stamps no time, and the record it puts is the source record, under the identifier
  of the source.
\<close>

theorem ReleaseCopy_same_record:
  "ReleaseCopy
     (example_aws [(''id'', NewStringAttribute ''id'' ''RAAAAAAAAA''),
                   (''ami'', NewStringAttribute ''ami'' ''ami-x''),
                   (''created-at'', NewStringAttribute ''created-at'' ''now'')])
     ''c'' ''a'' ''RAAAAAAAAA'' []
   = ((''RAAAAAAAAA'', None),
      [Call_GetItem ''c-a-releases'' ''RAAAAAAAAA'' [], Ev_generateId ''R'' 9,
       Call_PutItem ''c-a-releases'' ''RAAAAAAAAA'' []
         [NewStringAttribute ''id'' ''RAAAAAAAAA'',
          NewStringAttribute ''ami'' ''ami-x'',
          NewStringAttribute ''created-at'' ''now'']])"
  by (simp add: ReleaseCopy_def generateId_def releasesTable_def example_aws_def
                NewStringAttribute_def upt_rec numeral_nat Let_def)

text \<open>
  The loop of \<^const>\<open>ReleaseCopy\<close> appends one attribute for each field of the
  source, in their order, and reads the clock once for each field named \<open>created\<close>.
\<close>

lemma ReleaseCopy_loop_fields:
  "\<exists>rel' n. ReleaseCopy_loop aws id' drel rel tr = (rel @ rel', tr @ replicate n Ev_Now)
     \<and> list_all2 (\<lambda>(key, attr) new.
           if key = ''id'' then new = NewStringAttribute key id'
           else if key = ''created'' then
             (\<exists>m. new = NewStringAttribute key (Now_Format aws (tr @ replicate m Ev_Now) (SortableTime aws)))
           else new = NewStringAttribute key (Value attr)) drel rel'"
  (is "\<exists>rel' n. _ = (_, _ n) \<and> list_all2 (?P tr) drel rel'")
proof (induction drel arbitrary: rel tr)
  case Nil
  have 1: "ReleaseCopy_loop aws id' [] rel tr = (rel @ [], tr @ replicate 0 Ev_Now)" by simp
  have 2: "list_all2 (?P tr) [] []" by simp
  show ?case
    by (rule exI [of _ "[]"], rule exI [of _ 0], rule conjI [OF 1 2])
next
  case (Cons field drel)
  obtain key attr where field: "field = (key, attr)" by (cases field)
  consider (id) "key = ''id''" | (created) "key = ''created''" | (other) "key \<noteq> ''id''" "key \<noteq> ''created''"
    by blast
  then show ?case
  proof cases
    case id
    let ?new = "NewStringAttribute key id'"
    obtain rel' n where r: "ReleaseCopy_loop aws id' drel (rel @ [?new]) tr
          = ((rel @ [?new]) @ rel', tr @ replicate n Ev_Now)"
      and a: "list_all2 (?P tr) drel rel'"
      using Cons.IH [of "rel @ [?new]" tr] by (elim exE conjE)
    have 1: "ReleaseCopy_loop aws id' (field # drel) rel tr = (rel @ (?new # rel'), tr @ replicate n Ev_Now)"
      using r id field by simp
    have "?P tr field ?new"
      using id field by simp
    with a have 2: "list_all2 (?P tr) (field # drel) (?new # rel')"
      by (rule list_all2_Cons [THEN iffD2, OF conjI, rotated])
    show ?thesis
      by (rule exI [of _ "?new # rel'"], rule exI [of _ n], rule conjI [OF 1 2])
  next
    case other
    let ?new = "NewStringAttribute key (Value attr)"
    obtain rel' n where r: "ReleaseCopy_loop aws id' drel (rel @ [?new]) tr
          = ((rel @ [?new]) @ rel', tr @ replicate n Ev_Now)"
      and a: "list_all2 (?P tr) drel rel'"
      using Cons.IH [of "rel @ [?new]" tr] by (elim exE conjE)
    have 1: "ReleaseCopy_loop aws id' (field # drel) rel tr = (rel @ (?new # rel'), tr @ replicate n Ev_Now)"
      using r other field by simp
    have "?P tr field ?new"
      using other field by simp
    with a have 2: "list_all2 (?P tr) (field # drel) (?new # rel')"
      by (rule list_all2_Cons [THEN iffD2, OF conjI, rotated])
    show ?thesis
      by (rule exI [of _ "?new # rel'"], rule exI [of _ n], rule conjI [OF 1 2])
  next
    case created
    let ?new = "NewStringAttribute key (Now_Format aws tr (SortableTime aws))"
    obtain rel' n where r: "ReleaseCopy_loop aws id' drel (rel @ [?new]) (tr @ [Ev_Now])
          = ((rel @ [?new]) @ rel', (tr @ [Ev_Now]) @ replicate n Ev_Now)"
      and a: "list_all2 (?P (tr @ [Ev_Now])) drel rel'"
      using Cons.IH [of "rel @ [?new]" "tr @ [Ev_Now]"] by (elim exE conjE)
    have later: "?P tr x y" if p: "?P (tr @ [Ev_Now]) x y" for x y
    proof (cases x)
      case (Pair k v)
      show "?P tr x y"
      proof (cases "k = ''created''")
        case True
        with p Pair obtain m where
          "y = NewStringAttribute k (Now_Format aws ((tr @ [Ev_Now]) @ replicate m Ev_Now) (SortableTime aws))"
          by auto
        then have "y = NewStringAttribute k (Now_Format aws (tr @ replicate (Suc m) Ev_Now) (SortableTime aws))"
          by simp
        then have "\<exists>m. y = NewStringAttribute k (Now_Format aws (tr @ replicate m Ev_Now) (SortableTime aws))"
          by (rule exI)
        with True Pair show ?thesis by simp
      next
        case False
        with p Pair show ?thesis by simp
      qed
    qed
    have a': "list_all2 (?P tr) drel rel'"
      by (rule list_all2_mono [OF a]) (rule later)
    have 1: "ReleaseCopy_loop aws id' (field # drel) rel tr
            = (rel @ (?new # rel'), tr @ replicate (Suc n) Ev_Now)"
      using r created field by simp
    have "?new = NewStringAttribute key (Now_Format aws (tr @ replicate 0 Ev_Now) (SortableTime aws))"
      by simp
    then have "\<exists>m. ?new = NewStringAttribute key (Now_Format aws (tr @ replicate m Ev_Now) (SortableTime aws))"
      by (rule exI)
    then have "?P tr field ?new"
      using created field by simp
    with a' have 2: "list_all2 (?P tr) (field # drel) (?new # rel')"
      by (rule list_all2_Cons [THEN iffD2, OF conjI, rotated])
    show ?thesis
      by (rule exI [of _ "?new # rel'"], rule exI [of _ "Suc n"], rule conjI [OF 1 2])
  qed
qed

text \<open>
  C5, amended. For every record the table returns for the source identifier,
  \<^const>\<open>ReleaseCopy\<close> puts, under an identifier of ten characters that begins with
  \<open>R\<close>, one attribute for each field of the source and no other: the field \<open>id\<close>
  with the new identifier, the field \<open>created\<close> with the time read from the clock
  during the call in the format \<open>SortableTime\<close>, and every other field, the \<open>ami\<close>
  among them, with the value it has in the source.
\<close>

theorem ReleaseCopy_fields:
  assumes "GetItem aws tr (releasesTable cluster app) (release, []) = Inr drel"
      and "tr1 = tr @ [Call_GetItem (releasesTable cluster app) release [], Ev_generateId ''R'' 9]"
  shows "\<exists>id' rel n.
           ReleaseCopy aws cluster app release tr
             = ((id', PutItem aws (tr1 @ replicate n Ev_Now) (releasesTable cluster app) id' [] rel),
                tr1 @ replicate n Ev_Now @ [Call_PutItem (releasesTable cluster app) id' [] rel])
         \<and> length id' = 10 \<and> take 1 id' = ''R''
         \<and> list_all2 (\<lambda>(key, attr) new.
               if key = ''id'' then new = NewStringAttribute key id'
               else if key = ''created'' then
                 (\<exists>m. new = NewStringAttribute key
                              (Now_Format aws (tr1 @ replicate m Ev_Now) (SortableTime aws)))
               else new = NewStringAttribute key (Value attr)) drel rel"
proof -
  let ?id = "generateId aws (tr @ [Call_GetItem (releasesTable cluster app) release []]) ''R'' 9"
  from ReleaseCopy_loop_fields [of aws ?id drel "[]" tr1]
  obtain rel n where loop: "ReleaseCopy_loop aws ?id drel [] tr1 = (rel, tr1 @ replicate n Ev_Now)"
    and fields: "list_all2 (\<lambda>(key, attr) new.
               if key = ''id'' then new = NewStringAttribute key ?id
               else if key = ''created'' then
                 (\<exists>m. new = NewStringAttribute key
                              (Now_Format aws (tr1 @ replicate m Ev_Now) (SortableTime aws)))
               else new = NewStringAttribute key (Value attr)) drel rel"
    by auto
  have run: "ReleaseCopy aws cluster app release tr
             = ((?id, PutItem aws (tr1 @ replicate n Ev_Now) (releasesTable cluster app) ?id [] rel),
                tr1 @ replicate n Ev_Now @ [Call_PutItem (releasesTable cluster app) ?id [] rel])"
    using assms(1) loop unfolding assms(2) by (simp add: ReleaseCopy_def Let_def)
  have shape: "length ?id = 10" "take 1 ?id = ''R''"
    by (simp_all add: generateId_def)
  show ?thesis
    by (intro exI [of _ ?id] exI [of _ rel] exI [of _ n] conjI run shape fields)
qed

theorem ReleaseCopy_fields_witness:
  "ReleaseCopy
     (example_aws [(''id'', NewStringAttribute ''id'' ''R1''),
                   (''ami'', NewStringAttribute ''ami'' ''ami-x''),
                   (''created'', NewStringAttribute ''created'' ''20250101.120000.000000000''),
                   (''foo'', NewStringAttribute ''foo'' ''bar'')])
     ''c'' ''a'' ''R1'' []
   = ((''RAAAAAAAAA'', None),
      [Call_GetItem ''c-a-releases'' ''R1'' [], Ev_generateId ''R'' 9, Ev_Now,
       Call_PutItem ''c-a-releases'' ''RAAAAAAAAA'' []
         [NewStringAttribute ''id'' ''RAAAAAAAAA'',
          NewStringAttribute ''ami'' ''ami-x'',
          NewStringAttribute ''created'' ''20260101.120000.000000000'',
          NewStringAttribute ''foo'' ''bar'']])
   \<and> length (fst (fst (ReleaseCopy
           (example_aws [(''id'', NewStringAttribute ''id'' ''R1''),
                         (''ami'', NewStringAttribute ''ami'' ''ami-x''),
                         (''created'', NewStringAttribute ''created'' ''20250101.120000.000000000''),
                         (''foo'', NewStringAttribute ''foo'' ''bar'')])
           ''c'' ''a'' ''R1'' []))) = 10"
proof -
  let ?src = "[(''id'', NewStringAttribute ''id'' ''R1''),
               (''ami'', NewStringAttribute ''ami'' ''ami-x''),
               (''created'', NewStringAttribute ''created'' ''20250101.120000.000000000''),
               (''foo'', NewStringAttribute ''foo'' ''bar'')]"
  let ?aws = "example_aws ?src"
  have h: "GetItem ?aws [] (releasesTable ''c'' ''a'') (''R1'', []) = Inr ?src"
    by (simp add: example_aws_def)
  have run: "ReleaseCopy ?aws ''c'' ''a'' ''R1'' []
   = ((''RAAAAAAAAA'', None),
      [Call_GetItem ''c-a-releases'' ''R1'' [], Ev_generateId ''R'' 9, Ev_Now,
       Call_PutItem ''c-a-releases'' ''RAAAAAAAAA'' []
         [NewStringAttribute ''id'' ''RAAAAAAAAA'',
          NewStringAttribute ''ami'' ''ami-x'',
          NewStringAttribute ''created'' ''20260101.120000.000000000'',
          NewStringAttribute ''foo'' ''bar'']])"
    by (simp add: ReleaseCopy_def generateId_def releasesTable_def example_aws_def
                  NewStringAttribute_def upt_rec numeral_nat Let_def)
  from ReleaseCopy_fields [OF h refl]
  obtain id' rel n where
    t: "ReleaseCopy ?aws ''c'' ''a'' ''R1'' []
          = ((id', PutItem ?aws
                (([] @ [Call_GetItem (releasesTable ''c'' ''a'') ''R1'' [], Ev_generateId ''R'' 9])
                 @ replicate n Ev_Now) (releasesTable ''c'' ''a'') id' [] rel),
             ([] @ [Call_GetItem (releasesTable ''c'' ''a'') ''R1'' [], Ev_generateId ''R'' 9])
               @ replicate n Ev_Now @ [Call_PutItem (releasesTable ''c'' ''a'') id' [] rel])"
    and shape: "length id' = 10" "take 1 id' = ''R''"
    and fields: "list_all2 (\<lambda>(key, attr) new.
               if key = ''id'' then new = NewStringAttribute key id'
               else if key = ''created'' then
                 (\<exists>m. new = NewStringAttribute key
                     (Now_Format ?aws (([] @ [Call_GetItem (releasesTable ''c'' ''a'') ''R1'' [], Ev_generateId ''R'' 9])
                        @ replicate m Ev_Now) (SortableTime ?aws)))
               else new = NewStringAttribute key (Value attr)) ?src rel"
    by (elim exE conjE)
  have first: "fst (fst (ReleaseCopy ?aws ''c'' ''a'' ''R1'' [])) = id'"
    unfolding t by simp
  have "length (fst (fst (ReleaseCopy ?aws ''c'' ''a'' ''R1'' []))) = 10"
    unfolding first by (rule shape(1))
  with run show ?thesis by (rule conjI)
qed

end
